theory Spec2Isabelle
  imports Complex_Main "HOL-Library.Sublist"
begin

section \<open>ProseGenerator: the conversation front end (App component)\<close>

text \<open>
  The component keeps its whole state in React state variables and changes it only
  in event handlers. Each handler is modelled as a function from the state the
  handler was created in (the values its closure reads: \<open>step\<close>, \<open>data\<close>,
  \<open>userInput\<close>, ...) to the state after all of its \<open>set...\<close> calls have been
  applied in order. Handlers run to completion one after another; the one
  asynchronous call, \<open>fetch\<close> in \<open>generateStory\<close>, is modelled by passing the
  outcome of the call to the handler.

  The model follows the version of the component that has the parameters
  editor; the earlier version has the same \<open>STEPS\<close> object and the same
  conversation flow.

  JavaScript strings are modelled as HOL strings, one \<open>char\<close> for each code unit
  below 256. JavaScript values that a state variable can hold besides strings
  (numbers, \<open>undefined\<close>, \<open>null\<close>, objects) are the type \<open>jsval\<close>.
\<close>

subsection \<open>JavaScript values and string operations\<close>

datatype jsval = Undefined | Null | Num int | Str string | Other

text \<open>\<open>String.prototype.trim\<close>: white space and line terminators below code unit 256.\<close>

definition isWhiteSpace :: "char \<Rightarrow> bool" where
  "isWhiteSpace c =
     (c = CHR 0x09 \<or> c = CHR 0x0A \<or> c = CHR 0x0B \<or> c = CHR 0x0C \<or> c = CHR 0x0D
      \<or> c = CHR 0x20 \<or> c = CHR 0xA0)"

definition trim :: "string \<Rightarrow> string" where
  "trim s = rev (dropWhile isWhiteSpace (rev (dropWhile isWhiteSpace s)))"

text \<open>\<open>String.prototype.toLowerCase\<close> on code units below 256: A-Z and the
  upper-case letters of Latin-1 (0xC0-0xDE without the multiplication sign 0xD7).\<close>

definition lowerChar :: "char \<Rightarrow> char" where
  "lowerChar c =
     (let n = (of_char c :: nat)
      in if (65 \<le> n \<and> n \<le> 90) \<or> (192 \<le> n \<and> n \<le> 222 \<and> n \<noteq> 215)
         then char_of (n + 32) else c)"

definition toLowerCase :: "string \<Rightarrow> string" where
  "toLowerCase s = map lowerChar s"

text \<open>Decimal rendering of a non-negative number inside a template literal.\<close>

function numToString :: "nat \<Rightarrow> string" where
  "numToString n =
     (if n < 10 then [char_of (48 + n)]
      else numToString (n div 10) @ [char_of (48 + n mod 10)])"
  by pat_completeness auto
termination
  by (relation "measure id") auto

declare numToString.simps [simp del]

text \<open>\<open>Array.prototype.join\<close>.\<close>

fun join :: "string \<Rightarrow> string list \<Rightarrow> string" where
  "join sep [] = []"
| "join sep [x] = x"
| "join sep (x # y # ys) = x @ sep @ join sep (y # ys)"

text \<open>\<open>xs.filter((_, i) => i !== index)\<close>: the elements whose position is not
  \<open>index\<close>. The delete buttons pass the position of the row they belong to.\<close>

definition filterIndexNot :: "nat \<Rightarrow> 'a list \<Rightarrow> 'a list" where
  "filterIndexNot index xs = map snd (filter (\<lambda>(i, x). i \<noteq> index) (enumerate 0 xs))"

subsection \<open>Constants of the module\<close>

text \<open>
  \<open>STEPS\<close> is an object literal with ten properties. A property read
  \<open>STEPS.K\<close> gives the number stored under \<open>K\<close>, and \<open>undefined\<close> when the
  object has no such property.
\<close>

definition STEPS :: "(string \<times> int) list" where
  "STEPS =
     [(''BEAT'', 0), (''BEAT_CONFIRM'', 1), (''CHARACTER_NAME'', 2),
      (''CHARACTER_DESCRIPTION'', 3), (''SETTING'', 4), (''GENRE'', 5), (''STYLE'', 6),
      (''CONFIRM'', 7), (''GENERATE'', 8), (''EXTEND'', 9)]"

definition STEPS_get :: "string \<Rightarrow> jsval" where
  "STEPS_get k = (case map_of STEPS k of Some n \<Rightarrow> Num n | None \<Rightarrow> Undefined)"

definition characterColors :: "string list" where
  "characterColors = [''#f44336'', ''#4caf50'', ''#2196f3'', ''#ff9800'', ''#9c27b0'']"

text \<open>The welcome text. Its three characters outside Latin-1 (a dash and two
  non-breaking hyphens) are written as \<open>-\<close>; the text is only stored and shown.\<close>

definition initialMessage :: string where
  "initialMessage =
     ''Welcome! I'm ProseGenerator - an AI-powered creative writing assistant built with React, Material-UI, FastAPI, OpenAI GPT-4, and Pinecone.\<newline>'' @
     ''I use advanced NLP, Retrieval-Augmented Generation (RAG) techniques, and a pre-built vector database (Pinecone) to transform your story beats into a narrative.\<newline>'' @
     ''(For your information, data ingestion (embedding BookSum) has already been completed and stored in Pinecone.)\<newline>'' @
     ''Let's begin! Please enter your first Story Beat.''"

subsection \<open>State\<close>

record character =
  name :: string
  description :: string
  color :: string

record story_data =
  beats :: "string list"
  characters :: "character list"
  setting :: string
  genre :: string
  style :: string

datatype sender_t = Bot | User

record message =
  sender :: sender_t
  text_m :: string

text \<open>One field for each \<open>useState\<close> variable that a handler reads or writes.
  \<open>temperature\<close> is a JavaScript number that is only stored and copied.\<close>

record session =
  step :: jsval
  data :: story_data
  currentCharName :: string
  editingSetting :: bool
  editingGenre :: bool
  editingStyle :: bool
  tempSetting :: string
  tempGenre :: string
  tempStyle :: string
  newBeat :: string
  showNewBeatInput :: bool
  newCharacterName :: string
  newCharacterDesc :: string
  showNewCharacterInput :: bool
  messages :: "message list"
  currentPrompt :: string
  userInput :: string
  generatedStory :: jsval
  temperature :: real
  desiredLength :: int
  layoutMode :: string
  loading :: bool

definition emptyData :: story_data where
  "emptyData = \<lparr>beats = [], characters = [], setting = [], genre = [], style = []\<rparr>"

text \<open>The initial values given to \<open>useState\<close>.\<close>

definition initialSession :: session where
  "initialSession =
     \<lparr>step = STEPS_get ''BEAT'', data = emptyData, currentCharName = [],
      editingSetting = False, editingGenre = False, editingStyle = False,
      tempSetting = [], tempGenre = [], tempStyle = [],
      newBeat = [], showNewBeatInput = False,
      newCharacterName = [], newCharacterDesc = [], showNewCharacterInput = False,
      messages = [\<lparr>sender = Bot, text_m = initialMessage\<rparr>],
      currentPrompt = ''Type your message here...'', userInput = [],
      generatedStory = Str [], temperature = 0.7, desiredLength = 1000,
      layoutMode = ''both'', loading = False\<rparr>"

subsection \<open>Out-of-band editor handlers\<close>

definition removeCharacter :: "nat \<Rightarrow> session \<Rightarrow> session" where
  "removeCharacter index s =
     s\<lparr>data := (data s)\<lparr>characters := filterIndexNot index (characters (data s))\<rparr>\<rparr>"

definition removeBeat :: "nat \<Rightarrow> session \<Rightarrow> session" where
  "removeBeat index s =
     s\<lparr>data := (data s)\<lparr>beats := filterIndexNot index (beats (data s))\<rparr>\<rparr>"

definition toggleEdit :: "string \<Rightarrow> session \<Rightarrow> session" where
  "toggleEdit param s =
     (if param = ''setting''
        then s\<lparr>tempSetting := setting (data s), editingSetting := \<not> editingSetting s\<rparr>
      else if param = ''genre''
        then s\<lparr>tempGenre := genre (data s), editingGenre := \<not> editingGenre s\<rparr>
      else if param = ''style''
        then s\<lparr>tempStyle := style (data s), editingStyle := \<not> editingStyle s\<rparr>
      else s)"

definition saveEdit :: "string \<Rightarrow> session \<Rightarrow> session" where
  "saveEdit param s =
     (if param = ''setting''
        then s\<lparr>data := (data s)\<lparr>setting := tempSetting s\<rparr>, editingSetting := False\<rparr>
      else if param = ''genre''
        then s\<lparr>data := (data s)\<lparr>genre := tempGenre s\<rparr>, editingGenre := False\<rparr>
      else if param = ''style''
        then s\<lparr>data := (data s)\<lparr>style := tempStyle s\<rparr>, editingStyle := False\<rparr>
      else s)"

definition handleAddBeat :: "session \<Rightarrow> session" where
  "handleAddBeat s =
     (if trim (newBeat s) \<noteq> []
        then s\<lparr>data := (data s)\<lparr>beats := beats (data s) @ [trim (newBeat s)]\<rparr>,
               newBeat := [], showNewBeatInput := False\<rparr>
      else s)"

definition cancelNewBeat :: "session \<Rightarrow> session" where
  "cancelNewBeat s = s\<lparr>newBeat := [], showNewBeatInput := False\<rparr>"

definition handleAddCharacter :: "session \<Rightarrow> session" where
  "handleAddCharacter s =
     (if trim (newCharacterName s) \<noteq> [] \<and> trim (newCharacterDesc s) \<noteq> []
        then
          (let newChar =
                 \<lparr>name = trim (newCharacterName s),
                  description = trim (newCharacterDesc s),
                  color = characterColors !
                    (length (characters (data s)) mod length characterColors)\<rparr>
           in s\<lparr>data := (data s)\<lparr>characters := characters (data s) @ [newChar]\<rparr>,
                newCharacterName := [], newCharacterDesc := [],
                showNewCharacterInput := False\<rparr>)
      else s)"

definition cancelNewCharacter :: "session \<Rightarrow> session" where
  "cancelNewCharacter s =
     s\<lparr>newCharacterName := [], newCharacterDesc := [], showNewCharacterInput := False\<rparr>"

subsection \<open>Reset\<close>

definition startOver :: "session \<Rightarrow> session" where
  "startOver s =
     s\<lparr>step := STEPS_get ''BEAT'',
       data := \<lparr>beats = [], characters = [], setting = [], genre = [], style = []\<rparr>,
       currentCharName := [],
       userInput := [],
       generatedStory := Str [],
       temperature := 0.7,
       desiredLength := 1000,
       layoutMode := ''both'',
       messages := [\<lparr>sender = Bot, text_m = initialMessage\<rparr>],
       currentPrompt := ''Type your message here...''\<rparr>"

subsection \<open>The generation call\<close>

text \<open>
  What \<open>await fetch(...)\<close> followed by \<open>await res.json()\<close> can give:
  the \<open>fetch\<close> promise rejects (\<open>NetworkError\<close>), or it resolves with a response
  of some HTTP status whose body either is not JSON (\<open>res.json()\<close> rejects), or
  parses to \<open>null\<close> (reading \<open>result.prose_output\<close> throws), or parses to a
  value whose property \<open>prose_output\<close> has the given value (\<open>Undefined\<close> when the
  property is missing).
\<close>

datatype response_body = NotJson | JsonNull | JsonValue jsval

datatype fetch_outcome = NetworkError | Response nat response_body

text \<open>\<open>setMessages(prev => [...prev, {sender, text}])\<close>.\<close>

definition appendMessage :: "sender_t \<Rightarrow> string \<Rightarrow> session \<Rightarrow> session" where
  "appendMessage who txt s = s\<lparr>messages := messages s @ [\<lparr>sender = who, text_m = txt\<rparr>]\<rparr>"

text \<open>The \<open>catch\<close> block of \<open>generateStory\<close>, and the statements of its
  \<open>try\<close> block that follow the two \<open>await\<close>s. The status of the response is
  never read.\<close>

definition generateStory_catch :: "session \<Rightarrow> session" where
  "generateStory_catch s =
     (appendMessage Bot ''Error generating story. Please try again or type 'start over'.'' s)
       \<lparr>currentPrompt := []\<rparr>"

definition generateStory_then :: "jsval \<Rightarrow> session \<Rightarrow> session" where
  "generateStory_then prose_output s =
     (appendMessage Bot
        ''Story generated. To view the full story, use the toggle button. Type 'start over' to reset.''
        (s\<lparr>generatedStory := prose_output\<rparr>))
       \<lparr>currentPrompt := ''Type your next input:'',
        step := STEPS_get ''EXTEND'',
        layoutMode := ''both''\<rparr>"

definition generateStory :: "fetch_outcome \<Rightarrow> session \<Rightarrow> session" where
  "generateStory outcome s =
     (let s1 = s\<lparr>loading := True\<rparr>;
          s2 = (case outcome of
                  NetworkError \<Rightarrow> generateStory_catch s1
                | Response status body \<Rightarrow>
                    (case body of
                       NotJson \<Rightarrow> generateStory_catch s1
                     | JsonNull \<Rightarrow> generateStory_catch s1
                     | JsonValue prose_output \<Rightarrow> generateStory_then prose_output s1))
      in s2\<lparr>loading := False\<rparr>)"

subsection \<open>The submit handler\<close>

text \<open>The summary shown at the \<open>STYLE\<close> step is built from the \<open>data\<close> of the
  handler's closure, that is, before the style typed in this submit is stored.\<close>

definition summaryText :: "story_data \<Rightarrow> string" where
  "summaryText d =
     ''\<newline>All parameters saved.\<newline>Beats:\<newline>'' @
     join ''\<newline>''
       (map (\<lambda>(idx, beat). numToString (idx + 1) @ ''. '' @ beat) (enumerate 0 (beats d))) @
     ''\<newline>Characters: '' @ join '', '' (map name (characters d)) @
     ''\<newline>Setting: '' @ setting d @
     ''\<newline>Genre: '' @ genre d @
     ''\<newline>Style: '' @ style d @
     ''\<newline>\<newline>Generate your story? (yes/no)\<newline>      ''"

text \<open>
  The chain of \<open>if (step === STEPS. ...)\<close> in \<open>handleSend\<close>. The conditions
  read the closure (\<open>s0\<close>: \<open>step\<close>, \<open>currentCharName\<close>, \<open>data\<close> in the
  summary); the updater functions passed to the setters work on the state
  \<open>s\<close> that the earlier setter calls of the handler have produced. A step that
  no condition matches leaves the state as it is.
\<close>

definition handleSend_flow :: "fetch_outcome \<Rightarrow> string \<Rightarrow> session \<Rightarrow> session \<Rightarrow> session" where
  "handleSend_flow outcome input s0 s =
     (if step s0 = STEPS_get ''BEAT'' then
        (appendMessage Bot ''Beat added. Do you want to add another beat? (yes/no)''
           (s\<lparr>data := (data s)\<lparr>beats := beats (data s) @ [input]\<rparr>\<rparr>))
          \<lparr>currentPrompt := ''Do you want to add another beat? (yes/no)'',
           step := STEPS_get ''BEAT_CONFIRM''\<rparr>
      else if step s0 = STEPS_get ''BEAT_CONFIRM'' then
        (if toLowerCase input = ''yes'' then
           (appendMessage Bot ''Please enter your next Story Beat:'' s)
             \<lparr>currentPrompt := ''Enter your next Story Beat:'', step := STEPS_get ''BEAT''\<rparr>
         else
           (appendMessage Bot ''Please enter the name of your first character:'' s)
             \<lparr>currentPrompt := ''Enter character name:'',
              step := STEPS_get ''CHARACTER_NAME''\<rparr>)
      else if step s0 = STEPS_get ''CHARACTER_NAME'' then
        (appendMessage Bot ''Now enter the character's description:''
           (s\<lparr>currentCharName := input\<rparr>))
          \<lparr>currentPrompt := ''Enter character description:'',
           step := STEPS_get ''CHARACTER_DESCRIPTION''\<rparr>
      else if step s0 = STEPS_get ''CHARACTER_DESCRIPTION'' then
        (let newChar =
               \<lparr>name = currentCharName s0,
                description = input,
                color = characterColors !
                  (length (characters (data s)) mod length characterColors)\<rparr>
         in (appendMessage Bot
               ''Character saved. Do you want to add another character? (yes/no)''
               (s\<lparr>data := (data s)\<lparr>characters := characters (data s) @ [newChar]\<rparr>\<rparr>))
              \<lparr>currentPrompt := ''Add another character? (yes/no)'',
               step := STEPS_get ''CHARACTERS''\<rparr>)
      else if step s0 = STEPS_get ''CHARACTERS'' then
        (if toLowerCase input = ''yes'' then
           (appendMessage Bot ''Please enter the name of your next character:'' s)
             \<lparr>currentPrompt := ''Enter character name:'',
              step := STEPS_get ''CHARACTER_NAME''\<rparr>
         else
           (appendMessage Bot
              ''Characters saved. Now, please enter the Setting of your story:'' s)
             \<lparr>currentPrompt := ''Enter the Setting:'', step := STEPS_get ''SETTING''\<rparr>)
      else if step s0 = STEPS_get ''SETTING'' then
        (appendMessage Bot ''Setting saved. Now, please enter the Genre:''
           (s\<lparr>data := (data s)\<lparr>setting := input\<rparr>\<rparr>))
          \<lparr>currentPrompt := ''Enter the Genre:'', step := STEPS_get ''GENRE''\<rparr>
      else if step s0 = STEPS_get ''GENRE'' then
        (appendMessage Bot ''Genre saved. Now, please enter the desired Style:''
           (s\<lparr>data := (data s)\<lparr>genre := input\<rparr>\<rparr>))
          \<lparr>currentPrompt := ''Enter the Style:'', step := STEPS_get ''STYLE''\<rparr>
      else if step s0 = STEPS_get ''STYLE'' then
        (appendMessage Bot (summaryText (data s0))
           (s\<lparr>data := (data s)\<lparr>style := input\<rparr>\<rparr>))
          \<lparr>currentPrompt := ''Generate your story? (yes/no)'',
           step := STEPS_get ''CONFIRM''\<rparr>
      else if step s0 = STEPS_get ''CONFIRM'' then
        (if toLowerCase input = ''yes'' then
           generateStory outcome
             ((appendMessage Bot ''Generating your story... Please wait.'' s)
                \<lparr>currentPrompt := ''Generating...'', step := STEPS_get ''GENERATE''\<rparr>)
         else
           (appendMessage Bot
              ''Story generation cancelled. To try again, type 'start over'.'' s)
             \<lparr>currentPrompt := []\<rparr>)
      else s)"

text \<open>
  \<open>handleSend\<close>: \<open>s\<close> is the state the handler closes over; \<open>outcome\<close> is what
  the generation request gives if this submit issues one.
\<close>

definition handleSend :: "fetch_outcome \<Rightarrow> session \<Rightarrow> session" where
  "handleSend outcome s =
     (let input = trim (userInput s)
      in if input = [] then s
         else
           (let s1 = appendMessage User input s
            in if toLowerCase input = ''start over'' then startOver s1
               else (handleSend_flow outcome input s s1)\<lparr>userInput := []\<rparr>))"

text \<open>Typing \<open>txt\<close> into the input box (\<open>onChange\<close>) and submitting the form.\<close>

definition submit :: "string \<Rightarrow> fetch_outcome \<Rightarrow> session \<Rightarrow> session" where
  "submit txt outcome s = handleSend outcome (s\<lparr>userInput := txt\<rparr>)"

subsection \<open>Presentation\<close>

definition cycleLayoutMode :: "session \<Rightarrow> session" where
  "cycleLayoutMode s =
     (if generatedStory s = Str []
        then s\<lparr>layoutMode := (if layoutMode s = ''both'' then ''chatOnly'' else ''both'')\<rparr>
      else s\<lparr>layoutMode := (if layoutMode s = ''both'' then ''storyOnly'' else ''both'')\<rparr>)"

definition beforeGeneration :: "session \<Rightarrow> bool" where
  "beforeGeneration s = (generatedStory s = Str [])"

definition leftPanelWidth :: "session \<Rightarrow> nat" where
  "leftPanelWidth s =
     (if beforeGeneration s then (if layoutMode s = ''chatOnly'' then 12 else 9)
      else (if layoutMode s = ''storyOnly'' then 0 else 8))"

definition rightPanelWidth :: "session \<Rightarrow> nat" where
  "rightPanelWidth s =
     (if beforeGeneration s then (if layoutMode s = ''chatOnly'' then 0 else 3)
      else (if layoutMode s = ''storyOnly'' then 12 else 4))"

definition chatVisible :: "session \<Rightarrow> bool" where
  "chatVisible s = (if beforeGeneration s then True else layoutMode s \<noteq> ''storyOnly'')"

definition rightVisible :: "session \<Rightarrow> bool" where
  "rightVisible s = (rightPanelWidth s > 0)"

text \<open>The heading of the right panel: the parameters editor or the story.\<close>

definition rightPanelHeading :: "session \<Rightarrow> string" where
  "rightPanelHeading s =
     (if beforeGeneration s then ''Generation Parameters'' else ''Generated Story'')"

subsection \<open>Events\<close>

text \<open>
  What the user can do in the parameters panel. Typing into a text field is the
  field's \<open>onChange\<close> handler (\<open>setNewBeat(e.target.value)\<close> and the like);
  \<open>AddBeat txt\<close> is typing \<open>txt\<close> into the new-beat field and pressing its check
  button, \<open>AddCharacter\<close> likewise for the two character fields.
\<close>

datatype editor_op =
    AddBeat string
  | RemoveBeat nat
  | AddCharacter string string
  | RemoveCharacter nat
  | ToggleEdit string
  | TypeSetting string
  | TypeGenre string
  | TypeStyle string
  | SaveEdit string
  | CancelNewBeat
  | CancelNewCharacter

fun applyEditor :: "editor_op \<Rightarrow> session \<Rightarrow> session" where
  "applyEditor (AddBeat txt) s = handleAddBeat (s\<lparr>newBeat := txt\<rparr>)"
| "applyEditor (RemoveBeat index) s = removeBeat index s"
| "applyEditor (AddCharacter nm desc) s =
     handleAddCharacter (s\<lparr>newCharacterName := nm, newCharacterDesc := desc\<rparr>)"
| "applyEditor (RemoveCharacter index) s = removeCharacter index s"
| "applyEditor (ToggleEdit param) s = toggleEdit param s"
| "applyEditor (TypeSetting v) s = s\<lparr>tempSetting := v\<rparr>"
| "applyEditor (TypeGenre v) s = s\<lparr>tempGenre := v\<rparr>"
| "applyEditor (TypeStyle v) s = s\<lparr>tempStyle := v\<rparr>"
| "applyEditor (SaveEdit param) s = saveEdit param s"
| "applyEditor CancelNewBeat s = cancelNewBeat s"
| "applyEditor CancelNewCharacter s = cancelNewCharacter s"

text \<open>A session is driven by a sequence of events: submits of the chat form
  (each with the outcome of the request it may issue), editor actions, and
  presses of the layout toggle.\<close>

datatype event = Send string fetch_outcome | Editor editor_op | CycleLayoutMode

fun fire :: "event \<Rightarrow> session \<Rightarrow> session" where
  "fire (Send txt outcome) s = submit txt outcome s"
| "fire (Editor op) s = applyEditor op s"
| "fire CycleLayoutMode s = cycleLayoutMode s"

fun run :: "event list \<Rightarrow> session \<Rightarrow> session" where
  "run [] s = s"
| "run (e # es) s = run es (fire e s)"

subsection \<open>Sequences of beat operations\<close>

text \<open>The two beat operations of the editor, each run at some step: the step
  of the session is set to the given value before the operation runs.\<close>

datatype beat_op = Add string | Remove nat

fun beatEvent :: "beat_op \<Rightarrow> editor_op" where
  "beatEvent (Add txt) = AddBeat txt"
| "beatEvent (Remove index) = RemoveBeat index"

fun runBeatOps :: "(jsval \<times> beat_op) list \<Rightarrow> session \<Rightarrow> session" where
  "runBeatOps [] s = s"
| "runBeatOps ((st, op) # ops) s = runBeatOps ops (applyEditor (beatEvent op) (s\<lparr>step := st\<rparr>))"

text \<open>
  The reference the beat operations are compared with, following the
  specification: \<open>addBeat(text)\<close> appends the text if it is not empty after
  trimming (the trimmed text, as the handler stores it), and
  \<open>removeBeat(index)\<close> removes the beat at that position and does nothing if
  the index is out of range. \<open>addedBeats\<close> lists the beats that were added, in
  the order of the calls.
\<close>

fun beatsSpec :: "beat_op list \<Rightarrow> string list \<Rightarrow> string list" where
  "beatsSpec [] bs = bs"
| "beatsSpec (Add txt # ops) bs = beatsSpec ops (if trim txt = [] then bs else bs @ [trim txt])"
| "beatsSpec (Remove index # ops) bs =
     beatsSpec ops (if index < length bs then take index bs @ drop (Suc index) bs else bs)"

fun addedBeats :: "beat_op list \<Rightarrow> string list" where
  "addedBeats [] = []"
| "addedBeats (Add txt # ops) = (if trim txt = [] then [] else [trim txt]) @ addedBeats ops"
| "addedBeats (Remove index # ops) = addedBeats ops"

subsection \<open>Characters and the palette\<close>

text \<open>A sequence of events in which no character is removed.\<close>

fun noCharacterRemoval :: "event list \<Rightarrow> bool" where
  "noCharacterRemoval [] = True"
| "noCharacterRemoval (Editor (RemoveCharacter index) # es) = False"
| "noCharacterRemoval (e # es) = noCharacterRemoval es"

text \<open>The colours of a list of characters follow the palette by position.\<close>

definition paletteOrder :: "character list \<Rightarrow> bool" where
  "paletteOrder cs =
     (map color cs = map (\<lambda>k. characterColors ! (k mod length characterColors)) [0..<length cs])"

subsection \<open>Example sessions\<close>

text \<open>The conversation of the walk-through: a first beat, no further beat, one
  character, no further character, setting, genre and style.\<close>

definition walkthrough :: "string \<Rightarrow> fetch_outcome \<Rightarrow> event list" where
  "walkthrough firstBeat r =
     [Send firstBeat r, Send ''no'' r, Send ''Ana'' r, Send ''A pilot'' r, Send ''no'' r,
      Send ''A ship'' r, Send ''Sci-Fi'' r, Send ''Tense'' r]"

definition atConfirm :: session where
  "atConfirm = run (walkthrough ''A storm hits the ship'' NetworkError) initialSession"

definition storyResponse :: fetch_outcome where
  "storyResponse = Response 200 (JsonValue (Str ''Once upon a time''))"

definition afterStory :: session where
  "afterStory = submit ''yes'' storyResponse atConfirm"

definition afterFailure :: session where
  "afterFailure = submit ''yes'' NetworkError atConfirm"

definition atDescription :: session where
  "atDescription =
     run [Send ''A storm hits the ship'' NetworkError, Send ''no'' NetworkError,
          Send ''Ana'' NetworkError] initialSession"

definition beatOpsExample :: "(jsval \<times> beat_op) list" where
  "beatOpsExample =
     [(Num 0, Add ''  The storm breaks '' ), (Num 7, Add ''Ana takes the helm''),
      (Num 9, Remove 0), (Undefined, Remove 5), (Num 3, Add ''   '')]"

definition castExample :: "event list" where
  "castExample =
     [Send ''A storm hits the ship'' NetworkError, Send ''no'' NetworkError,
      Editor (AddCharacter ''Ben'' ''A cook''), Editor (RemoveBeat 0),
      Send ''Ana'' NetworkError, Send ''A pilot'' NetworkError]"

definition recastExample :: "event list" where
  "recastExample =
     [Editor (AddCharacter ''Ana'' ''A pilot''), Editor (AddCharacter ''Ben'' ''A cook''),
      Editor (RemoveCharacter 0), Editor (AddCharacter ''Cy'' ''A spy'')]"

section \<open>Basic facts\<close>

lemma STEPS_get_simps:
  "STEPS_get ''BEAT'' = Num 0"
  "STEPS_get ''BEAT_CONFIRM'' = Num 1"
  "STEPS_get ''CHARACTER_NAME'' = Num 2"
  "STEPS_get ''CHARACTER_DESCRIPTION'' = Num 3"
  "STEPS_get ''CHARACTERS'' = Undefined"
  "STEPS_get ''SETTING'' = Num 4"
  "STEPS_get ''GENRE'' = Num 5"
  "STEPS_get ''STYLE'' = Num 6"
  "STEPS_get ''CONFIRM'' = Num 7"
  "STEPS_get ''GENERATE'' = Num 8"
  "STEPS_get ''EXTEND'' = Num 9"
  by (simp_all add: STEPS_get_def STEPS_def)

lemmas generate_defs =
  generateStory_def generateStory_catch_def generateStory_then_def appendMessage_def

lemmas editor_defs =
  handleAddBeat_def removeBeat_def handleAddCharacter_def removeCharacter_def
  toggleEdit_def saveEdit_def cancelNewBeat_def cancelNewCharacter_def

lemma toLowerCase_Nil [simp]: "toLowerCase [] = []"
  by (simp add: toLowerCase_def)

lemma handleSend_empty: "trim (userInput s) = [] \<Longrightarrow> handleSend r s = s"
  by (simp add: handleSend_def)

lemma handleSend_start_over:
  assumes "toLowerCase (trim (userInput s)) = ''start over''"
  shows "handleSend r s = startOver (appendMessage User (trim (userInput s)) s)"
proof -
  from assms have "trim (userInput s) \<noteq> []"
    by auto
  with assms show ?thesis
    by (simp add: handleSend_def Let_def)
qed

lemma handleSend_flow_eq:
  assumes "trim (userInput s) \<noteq> []"
    and "toLowerCase (trim (userInput s)) \<noteq> ''start over''"
  shows "handleSend r s =
    (handleSend_flow r (trim (userInput s)) s
       (appendMessage User (trim (userInput s)) s))\<lparr>userInput := []\<rparr>"
  using assms by (simp add: handleSend_def Let_def)

text \<open>Filtering out one position is deleting that position.\<close>

lemma filter_enumerate_above:
  "n < m \<Longrightarrow> filter (\<lambda>(j, x). j \<noteq> n) (enumerate m xs) = enumerate m xs"
  by (induction xs arbitrary: m) auto

lemma filter_enumerate_offset:
  "map snd (filter (\<lambda>(j, x). j \<noteq> n + i) (enumerate n xs)) = take i xs @ drop (Suc i) xs"
proof (induction xs arbitrary: n i)
  case Nil
  then show ?case by simp
next
  case (Cons x xs)
  show ?case
  proof (cases i)
    case 0
    then show ?thesis
      by (simp add: filter_enumerate_above)
  next
    case (Suc k)
    with Cons.IH [of "Suc n" k] show ?thesis
      by simp
  qed
qed

lemma filterIndexNot_eq: "filterIndexNot index xs = take index xs @ drop (Suc index) xs"
  using filter_enumerate_offset [of 0 index xs] by (simp add: filterIndexNot_def)

subsection \<open>The transition table of the submit handler\<close>

text \<open>One lemma for each step: what a submit that is neither empty nor
  \<open>start over\<close> does to the step, the story parameters and the staged name.\<close>

lemma submit_flow:
  assumes "trim txt \<noteq> []" and "toLowerCase (trim txt) \<noteq> ''start over''"
  shows "submit txt r s =
    (handleSend_flow r (trim txt) (s\<lparr>userInput := txt\<rparr>)
       (appendMessage User (trim txt) (s\<lparr>userInput := txt\<rparr>)))\<lparr>userInput := []\<rparr>"
  using assms by (simp add: submit_def handleSend_flow_eq)

lemmas flow_defs = handleSend_flow_def STEPS_get_simps appendMessage_def Let_def

lemma submit_BEAT:
  assumes "step s = STEPS_get ''BEAT''"
    and "trim txt \<noteq> []" and "toLowerCase (trim txt) \<noteq> ''start over''"
  shows "step (submit txt r s) = STEPS_get ''BEAT_CONFIRM''"
    and "data (submit txt r s) = (data s)\<lparr>beats := beats (data s) @ [trim txt]\<rparr>"
    and "currentCharName (submit txt r s) = currentCharName s"
  using assms by (simp_all add: submit_flow flow_defs)

lemma submit_BEAT_CONFIRM:
  assumes "step s = STEPS_get ''BEAT_CONFIRM''"
    and "trim txt \<noteq> []" and "toLowerCase (trim txt) \<noteq> ''start over''"
  shows "step (submit txt r s) =
           (if toLowerCase (trim txt) = ''yes'' then STEPS_get ''BEAT''
            else STEPS_get ''CHARACTER_NAME'')"
    and "data (submit txt r s) = data s"
    and "currentCharName (submit txt r s) = currentCharName s"
  using assms by (simp_all add: submit_flow flow_defs)

lemma submit_CHARACTER_NAME:
  assumes "step s = STEPS_get ''CHARACTER_NAME''"
    and "trim txt \<noteq> []" and "toLowerCase (trim txt) \<noteq> ''start over''"
  shows "step (submit txt r s) = STEPS_get ''CHARACTER_DESCRIPTION''"
    and "data (submit txt r s) = data s"
    and "currentCharName (submit txt r s) = trim txt"
  using assms by (simp_all add: submit_flow flow_defs)

lemma submit_CHARACTER_DESCRIPTION:
  assumes "step s = STEPS_get ''CHARACTER_DESCRIPTION''"
    and "trim txt \<noteq> []" and "toLowerCase (trim txt) \<noteq> ''start over''"
  shows "step (submit txt r s) = STEPS_get ''CHARACTERS''"
    and "data (submit txt r s) =
           (data s)\<lparr>characters := characters (data s) @
              [\<lparr>name = currentCharName s, description = trim txt,
                color = characterColors !
                  (length (characters (data s)) mod length characterColors)\<rparr>]\<rparr>"
    and "currentCharName (submit txt r s) = currentCharName s"
  using assms by (simp_all add: submit_flow flow_defs)

lemma submit_CHARACTERS:
  assumes "step s = STEPS_get ''CHARACTERS''"
    and "trim txt \<noteq> []" and "toLowerCase (trim txt) \<noteq> ''start over''"
  shows "step (submit txt r s) =
           (if toLowerCase (trim txt) = ''yes'' then STEPS_get ''CHARACTER_NAME''
            else STEPS_get ''SETTING'')"
    and "data (submit txt r s) = data s"
    and "currentCharName (submit txt r s) = currentCharName s"
  using assms by (simp_all add: submit_flow flow_defs)

lemma submit_SETTING:
  assumes "step s = STEPS_get ''SETTING''"
    and "trim txt \<noteq> []" and "toLowerCase (trim txt) \<noteq> ''start over''"
  shows "step (submit txt r s) = STEPS_get ''GENRE''"
    and "data (submit txt r s) = (data s)\<lparr>setting := trim txt\<rparr>"
  using assms by (simp_all add: submit_flow flow_defs)

lemma submit_GENRE:
  assumes "step s = STEPS_get ''GENRE''"
    and "trim txt \<noteq> []" and "toLowerCase (trim txt) \<noteq> ''start over''"
  shows "step (submit txt r s) = STEPS_get ''STYLE''"
    and "data (submit txt r s) = (data s)\<lparr>genre := trim txt\<rparr>"
  using assms by (simp_all add: submit_flow flow_defs)

lemma submit_STYLE:
  assumes "step s = STEPS_get ''STYLE''"
    and "trim txt \<noteq> []" and "toLowerCase (trim txt) \<noteq> ''start over''"
  shows "step (submit txt r s) = STEPS_get ''CONFIRM''"
    and "data (submit txt r s) = (data s)\<lparr>style := trim txt\<rparr>"
    and "messages (submit txt r s) =
           messages s @ [\<lparr>sender = User, text_m = trim txt\<rparr>,
                         \<lparr>sender = Bot, text_m = summaryText (data s)\<rparr>]"
  using assms by (simp_all add: submit_flow flow_defs)

lemma submit_CONFIRM_yes:
  assumes "step s = STEPS_get ''CONFIRM''"
    and "toLowerCase (trim txt) = ''yes''"
  shows "submit txt r s =
     (generateStory r
        (s\<lparr>userInput := txt,
           messages := messages s @
              [\<lparr>sender = User, text_m = trim txt\<rparr>,
               \<lparr>sender = Bot, text_m = ''Generating your story... Please wait.''\<rparr>],
           currentPrompt := ''Generating...'',
           step := STEPS_get ''GENERATE''\<rparr>))\<lparr>userInput := []\<rparr>"
proof -
  from assms(2) have "trim txt \<noteq> []" "toLowerCase (trim txt) \<noteq> ''start over''"
    by auto
  with assms show ?thesis
    by (simp add: submit_flow flow_defs)
qed

lemma submit_CONFIRM_other:
  assumes "step s = STEPS_get ''CONFIRM''"
    and "trim txt \<noteq> []"
    and "toLowerCase (trim txt) \<noteq> ''yes''"
    and "toLowerCase (trim txt) \<noteq> ''start over''"
  shows "submit txt r s =
     s\<lparr>messages := messages s @
          [\<lparr>sender = User, text_m = trim txt\<rparr>,
           \<lparr>sender = Bot,
            text_m = ''Story generation cancelled. To try again, type 'start over'.''\<rparr>],
       currentPrompt := [], userInput := []\<rparr>"
  using assms by (simp add: submit_flow flow_defs)

section \<open>Reset\<close>

text \<open>
  C2. From every session state, submitting \<open>start over\<close> (the handler trims
  the text and compares it in lower case) gives step \<open>BEAT\<close>, empty story
  parameters, a message log that holds only the welcome message of the bot, and
  no generated story (the empty string, which is how the component stores
  "no result").
\<close>

theorem start_over_resets:
  assumes "toLowerCase (trim txt) = ''start over''"
  shows "step (submit txt r s) = STEPS_get ''BEAT''
       \<and> data (submit txt r s) =
           \<lparr>beats = [], characters = [], setting = [], genre = [], style = []\<rparr>
       \<and> messages (submit txt r s) = [\<lparr>sender = Bot, text_m = initialMessage\<rparr>]
       \<and> generatedStory (submit txt r s) = Str []"
  using assms by (simp add: submit_def handleSend_start_over startOver_def)

theorem start_over_resets_witness:
  "toLowerCase (trim ''start over'') = ''start over''
   \<and> step (submit ''start over'' NetworkError afterStory) = Num 0
   \<and> data (submit ''start over'' NetworkError afterStory) =
       \<lparr>beats = [], characters = [], setting = [], genre = [], style = []\<rparr>
   \<and> messages (submit ''start over'' NetworkError afterStory) =
       [\<lparr>sender = Bot, text_m = initialMessage\<rparr>]
   \<and> generatedStory (submit ''start over'' NetworkError afterStory) = Str []"
proof -
  have h: "toLowerCase (trim ''start over'') = ''start over''"
    by code_simp
  from start_over_resets [OF h, of NetworkError afterStory] h show ?thesis
    by (simp add: STEPS_get_simps)
qed

section \<open>The editor leaves the conversation alone\<close>

text \<open>
  C8. Every editor operation (adding or removing a beat, adding or removing a
  character, committing an edit of setting, genre or style, and also opening an
  edit, typing into an edit field and cancelling an add) leaves the step and
  the message log exactly as they were, in every session state.
\<close>

theorem editor_frame:
  "step (applyEditor op s) = step s \<and> messages (applyEditor op s) = messages s"
  by (cases op) (simp_all add: editor_defs Let_def)

section \<open>The step after a character description\<close>

text \<open>
  C1. The step is meant to range over the eleven conversation states, and the
  submit at \<open>CHARACTER_DESCRIPTION\<close> is meant to move to the state
  \<open>CHARACTERS\<close>. The object \<open>STEPS\<close> declares ten states and has no property
  \<open>CHARACTERS\<close>: after that submit the step is \<open>undefined\<close>, which is the
  value of none of the declared states.
\<close>

theorem step_after_character_description:
  assumes "step s = STEPS_get ''CHARACTER_DESCRIPTION''"
    and "trim txt \<noteq> []"
    and "toLowerCase (trim txt) \<noteq> ''start over''"
  shows "step (submit txt r s) = Undefined
       \<and> Undefined \<notin> set (map (\<lambda>(k, v). Num v) STEPS)
       \<and> STEPS_get ''CHARACTERS'' = Undefined"
proof -
  let ?s = "s\<lparr>userInput := txt\<rparr>"
  have "submit txt r s =
      (handleSend_flow r (trim txt) ?s (appendMessage User (trim txt) ?s))\<lparr>userInput := []\<rparr>"
    using assms(2,3) by (simp add: submit_def handleSend_flow_eq)
  moreover have
    "step (handleSend_flow r (trim txt) ?s (appendMessage User (trim txt) ?s)) = Undefined"
    using assms(1) by (simp add: handleSend_flow_def STEPS_get_simps Let_def)
  moreover have "Undefined \<notin> set (map (\<lambda>(k, v). Num v) STEPS)"
    by (simp add: STEPS_def)
  ultimately show ?thesis by (simp add: STEPS_get_simps)
qed

theorem step_after_character_description_witness:
  "step atDescription = STEPS_get ''CHARACTER_DESCRIPTION''
   \<and> trim ''A pilot'' \<noteq> []
   \<and> toLowerCase (trim ''A pilot'') \<noteq> ''start over''
   \<and> step (submit ''A pilot'' NetworkError atDescription) = Undefined
   \<and> Undefined \<notin> set (map (\<lambda>(k, v). Num v) STEPS)"
proof -
  have h1: "step atDescription = STEPS_get ''CHARACTER_DESCRIPTION''"
    by code_simp
  have h2: "trim ''A pilot'' \<noteq> []"
    by code_simp
  have h3: "toLowerCase (trim ''A pilot'') \<noteq> ''start over''"
    by code_simp
  from step_after_character_description [OF h1 h2 h3, of NetworkError] h1 h2 h3
  show ?thesis by simp
qed

section \<open>The generation call\<close>

text \<open>When the request fails to be sent, or the body of the response is not JSON
  or is \<open>null\<close>, the \<open>catch\<close> branch runs: an error message of the bot is
  appended, loading ends, and step, story and parameters stay as they were.\<close>

lemma generateStory_failure:
  assumes "outcome = NetworkError \<or> outcome = Response status NotJson
           \<or> outcome = Response status JsonNull"
  shows "messages (generateStory outcome s) =
           messages s @ [\<lparr>sender = Bot,
             text_m = ''Error generating story. Please try again or type 'start over'.''\<rparr>]"
    and "loading (generateStory outcome s) = False"
    and "step (generateStory outcome s) = step s"
    and "generatedStory (generateStory outcome s) = generatedStory s"
    and "data (generateStory outcome s) = data s"
  using assms by (auto simp: generate_defs Let_def)

text \<open>
  C4. A failing generation call should append an error message, end loading,
  and leave the step at \<open>GENERATE\<close> with no result. \<open>generateStory\<close> never looks
  at the status of the response: a response with status 500 whose body is a
  JSON value without \<open>prose_output\<close> takes the success path. The step becomes
  \<open>EXTEND\<close>, the stored story is \<open>undefined\<close>, and the message of the bot says
  that the story was generated; this also happens through the submit of
  \<open>yes\<close> at \<open>CONFIRM\<close>.
\<close>

theorem generateStory_error_status:
  "step (generateStory (Response 500 (JsonValue Undefined)) s) = STEPS_get ''EXTEND''
   \<and> generatedStory (generateStory (Response 500 (JsonValue Undefined)) s) = Undefined
   \<and> messages (generateStory (Response 500 (JsonValue Undefined)) s) =
       messages s @ [\<lparr>sender = Bot,
         text_m = ''Story generated. To view the full story, use the toggle button. Type 'start over' to reset.''\<rparr>]
   \<and> loading (generateStory (Response 500 (JsonValue Undefined)) s) = False
   \<and> step (submit ''yes'' (Response 500 (JsonValue Undefined)) atConfirm) = Num 9
   \<and> generatedStory (submit ''yes'' (Response 500 (JsonValue Undefined)) atConfirm) = Undefined"
proof -
  have "step (submit ''yes'' (Response 500 (JsonValue Undefined)) atConfirm) = Num 9"
    by code_simp
  moreover have
    "generatedStory (submit ''yes'' (Response 500 (JsonValue Undefined)) atConfirm) = Undefined"
    by code_simp
  ultimately show ?thesis
    by (simp add: generate_defs Let_def)
qed

section \<open>Submits after the generation call\<close>

lemma handleSend_flow_terminal:
  assumes "step s0 = STEPS_get ''GENERATE'' \<or> step s0 = STEPS_get ''EXTEND''"
  shows "handleSend_flow r i s0 s = s"
  using assms by (auto simp: handleSend_flow_def STEPS_get_simps)

text \<open>
  C9. At step \<open>GENERATE\<close> or \<open>EXTEND\<close>, a submit whose trimmed text is not
  empty and is not the \<open>start over\<close> command (which the handler compares in
  lower case) appends one user message and empties the input box; no branch of
  the conversation flow matches, so step, story parameters, generated story,
  prompt and generation controls stay as they were and the bot does not reply.
\<close>

theorem send_after_generation:
  assumes "step s = STEPS_get ''GENERATE'' \<or> step s = STEPS_get ''EXTEND''"
    and "trim txt \<noteq> []"
    and "toLowerCase (trim txt) \<noteq> ''start over''"
  shows "submit txt r s =
           s\<lparr>messages := messages s @ [\<lparr>sender = User, text_m = trim txt\<rparr>],
             userInput := []\<rparr>
       \<and> step (submit txt r s) = step s
       \<and> data (submit txt r s) = data s
       \<and> generatedStory (submit txt r s) = generatedStory s
       \<and> currentPrompt (submit txt r s) = currentPrompt s
       \<and> temperature (submit txt r s) = temperature s
       \<and> desiredLength (submit txt r s) = desiredLength s"
proof -
  let ?s = "s\<lparr>userInput := txt\<rparr>"
  have st: "step ?s = STEPS_get ''GENERATE'' \<or> step ?s = STEPS_get ''EXTEND''"
    using assms(1) by simp
  have "submit txt r s =
      (handleSend_flow r (trim txt) ?s (appendMessage User (trim txt) ?s))\<lparr>userInput := []\<rparr>"
    using assms(2,3) by (simp add: submit_def handleSend_flow_eq)
  also have "\<dots> = (appendMessage User (trim txt) ?s)\<lparr>userInput := []\<rparr>"
    by (simp only: handleSend_flow_terminal [OF st])
  also have "\<dots> = s\<lparr>messages := messages s @ [\<lparr>sender = User, text_m = trim txt\<rparr>],
             userInput := []\<rparr>"
    by (simp add: appendMessage_def)
  finally show ?thesis by simp
qed

theorem send_after_generation_witness:
  "(step afterStory = STEPS_get ''GENERATE'' \<or> step afterStory = STEPS_get ''EXTEND'')
   \<and> (step afterFailure = STEPS_get ''GENERATE'' \<or> step afterFailure = STEPS_get ''EXTEND'')
   \<and> trim ''One more chapter'' \<noteq> []
   \<and> toLowerCase (trim ''One more chapter'') \<noteq> ''start over''
   \<and> submit ''One more chapter'' storyResponse afterStory =
       afterStory\<lparr>messages := messages afterStory @
                      [\<lparr>sender = User, text_m = trim ''One more chapter''\<rparr>],
                   userInput := []\<rparr>
   \<and> step (submit ''One more chapter'' storyResponse afterFailure) = step afterFailure"
proof -
  have h1: "step afterStory = STEPS_get ''GENERATE'' \<or> step afterStory = STEPS_get ''EXTEND''"
    by code_simp
  have h1': "step afterFailure = STEPS_get ''GENERATE''
             \<or> step afterFailure = STEPS_get ''EXTEND''"
    by code_simp
  have h2: "trim ''One more chapter'' \<noteq> []"
    by code_simp
  have h3: "toLowerCase (trim ''One more chapter'') \<noteq> ''start over''"
    by code_simp
  from send_after_generation [OF h1 h2 h3, of storyResponse]
       send_after_generation [OF h1' h2 h3, of storyResponse] h1 h1' h2 h3
  show ?thesis by blast
qed

section \<open>Presentation\<close>

lemmas presentation_defs =
  beforeGeneration_def rightVisible_def rightPanelWidth_def rightPanelHeading_def
  chatVisible_def cycleLayoutMode_def

text \<open>
  C10. The presentation decides that a result exists by testing whether the
  stored story differs from the empty string, not whether a generation call
  has succeeded: \<open>beforeGeneration\<close>, the heading of the right panel and the
  toggle all read \<open>generatedStory === ""\<close>. So a generation call that
  succeeds with \<open>prose_output\<close> equal to the empty string sets the step to
  \<open>EXTEND\<close>, but the presentation stays as before generation: the right panel
  shows the parameters, and the toggle goes from \<open>both\<close> to \<open>chatOnly\<close> (chat
  visible, right panel hidden) and back to \<open>both\<close>. With any other stored
  value the same call gives the presentation after generation: the right panel
  shows the story, and the toggle goes from \<open>both\<close> to \<open>storyOnly\<close> (chat
  hidden, story visible) and back.
\<close>

theorem presentation_tests_stored_story:
  "beforeGeneration s = (generatedStory s = Str [])
   \<and> rightPanelHeading s =
       (if generatedStory s = Str [] then ''Generation Parameters'' else ''Generated Story'')
   \<and> layoutMode (cycleLayoutMode s) =
       (if layoutMode s = ''both''
        then (if generatedStory s = Str [] then ''chatOnly'' else ''storyOnly'')
        else ''both'')
   \<and> step (generateStory (Response status (JsonValue (Str []))) s) = STEPS_get ''EXTEND''
   \<and> generatedStory (generateStory (Response status (JsonValue (Str []))) s) = Str []
   \<and> beforeGeneration (generateStory (Response status (JsonValue (Str []))) s)
   \<and> layoutMode (generateStory (Response status (JsonValue (Str []))) s) = ''both''
   \<and> rightVisible (generateStory (Response status (JsonValue (Str []))) s)
   \<and> rightPanelHeading (generateStory (Response status (JsonValue (Str []))) s) =
       ''Generation Parameters''
   \<and> layoutMode (cycleLayoutMode (generateStory (Response status (JsonValue (Str []))) s)) =
       ''chatOnly''
   \<and> chatVisible (cycleLayoutMode (generateStory (Response status (JsonValue (Str []))) s))
   \<and> \<not> rightVisible (cycleLayoutMode (generateStory (Response status (JsonValue (Str []))) s))
   \<and> layoutMode (cycleLayoutMode (cycleLayoutMode
         (generateStory (Response status (JsonValue (Str []))) s))) = ''both''
   \<and> (v \<noteq> Str [] \<longrightarrow>
        step (generateStory (Response status (JsonValue v)) s) = STEPS_get ''EXTEND''
        \<and> generatedStory (generateStory (Response status (JsonValue v)) s) = v
        \<and> \<not> beforeGeneration (generateStory (Response status (JsonValue v)) s)
        \<and> layoutMode (generateStory (Response status (JsonValue v)) s) = ''both''
        \<and> rightVisible (generateStory (Response status (JsonValue v)) s)
        \<and> rightPanelHeading (generateStory (Response status (JsonValue v)) s) =
            ''Generated Story''
        \<and> layoutMode (cycleLayoutMode (generateStory (Response status (JsonValue v)) s)) =
            ''storyOnly''
        \<and> \<not> chatVisible (cycleLayoutMode (generateStory (Response status (JsonValue v)) s))
        \<and> rightVisible (cycleLayoutMode (generateStory (Response status (JsonValue v)) s))
        \<and> layoutMode (cycleLayoutMode (cycleLayoutMode
              (generateStory (Response status (JsonValue v)) s))) = ''both'')"
proof -
  have general:
    "beforeGeneration s = (generatedStory s = Str [])"
    "rightPanelHeading s =
       (if generatedStory s = Str [] then ''Generation Parameters'' else ''Generated Story'')"
    "layoutMode (cycleLayoutMode s) =
       (if layoutMode s = ''both''
        then (if generatedStory s = Str [] then ''chatOnly'' else ''storyOnly'')
        else ''both'')"
    by (simp_all add: presentation_defs)
  have empty:
    "step (generateStory (Response status (JsonValue (Str []))) s) = STEPS_get ''EXTEND''
   \<and> generatedStory (generateStory (Response status (JsonValue (Str []))) s) = Str []
   \<and> beforeGeneration (generateStory (Response status (JsonValue (Str []))) s)
   \<and> layoutMode (generateStory (Response status (JsonValue (Str []))) s) = ''both''
   \<and> rightVisible (generateStory (Response status (JsonValue (Str []))) s)
   \<and> rightPanelHeading (generateStory (Response status (JsonValue (Str []))) s) =
       ''Generation Parameters''
   \<and> layoutMode (cycleLayoutMode (generateStory (Response status (JsonValue (Str []))) s)) =
       ''chatOnly''
   \<and> chatVisible (cycleLayoutMode (generateStory (Response status (JsonValue (Str []))) s))
   \<and> \<not> rightVisible (cycleLayoutMode (generateStory (Response status (JsonValue (Str []))) s))
   \<and> layoutMode (cycleLayoutMode (cycleLayoutMode
         (generateStory (Response status (JsonValue (Str []))) s))) = ''both''"
    by (simp add: generate_defs Let_def presentation_defs)
  have stored:
    "step (generateStory (Response status (JsonValue v)) s) = STEPS_get ''EXTEND''
        \<and> generatedStory (generateStory (Response status (JsonValue v)) s) = v
        \<and> \<not> beforeGeneration (generateStory (Response status (JsonValue v)) s)
        \<and> layoutMode (generateStory (Response status (JsonValue v)) s) = ''both''
        \<and> rightVisible (generateStory (Response status (JsonValue v)) s)
        \<and> rightPanelHeading (generateStory (Response status (JsonValue v)) s) =
            ''Generated Story''
        \<and> layoutMode (cycleLayoutMode (generateStory (Response status (JsonValue v)) s)) =
            ''storyOnly''
        \<and> \<not> chatVisible (cycleLayoutMode (generateStory (Response status (JsonValue v)) s))
        \<and> rightVisible (cycleLayoutMode (generateStory (Response status (JsonValue v)) s))
        \<and> layoutMode (cycleLayoutMode (cycleLayoutMode
              (generateStory (Response status (JsonValue v)) s))) = ''both''"
    if "v \<noteq> Str []"
    using that by (simp add: generate_defs Let_def presentation_defs)
  from general empty stored show ?thesis
    by blast
qed

theorem presentation_tests_stored_story_witness:
  "Str ''Once upon a time'' \<noteq> Str []
   \<and> beforeGeneration (generateStory (Response 200 (JsonValue (Str []))) atConfirm)
   \<and> layoutMode (cycleLayoutMode
         (generateStory (Response 200 (JsonValue (Str []))) atConfirm)) = ''chatOnly''
   \<and> \<not> beforeGeneration
         (generateStory (Response 200 (JsonValue (Str ''Once upon a time''))) atConfirm)
   \<and> rightPanelHeading
         (generateStory (Response 200 (JsonValue (Str ''Once upon a time''))) atConfirm) =
       ''Generated Story''
   \<and> layoutMode (cycleLayoutMode
         (generateStory (Response 200 (JsonValue (Str ''Once upon a time''))) atConfirm)) =
       ''storyOnly''"
proof -
  have h: "Str ''Once upon a time'' \<noteq> Str []"
    by simp
  from presentation_tests_stored_story [of atConfirm 200 "Str ''Once upon a time''"] h
  show ?thesis by blast
qed


section \<open>The walk-through\<close>

lemma walk_inputs:
  "trim ''no'' = ''no''" "toLowerCase ''no'' \<noteq> ''yes''" "toLowerCase ''no'' \<noteq> ''start over''"
  "trim ''Ana'' = ''Ana''" "toLowerCase ''Ana'' \<noteq> ''start over''"
  "trim ''A pilot'' = ''A pilot''" "toLowerCase ''A pilot'' \<noteq> ''start over''"
  "trim ''A ship'' = ''A ship''" "toLowerCase ''A ship'' \<noteq> ''start over''"
  "trim ''Sci-Fi'' = ''Sci-Fi''" "toLowerCase ''Sci-Fi'' \<noteq> ''start over''"
  "trim ''Tense'' = ''Tense''" "toLowerCase ''Tense'' \<noteq> ''start over''"
  by code_simp+

text \<open>
  C6. From the initial session, a first beat (not empty after trimming, and not
  the \<open>start over\<close> command) followed by \<open>no\<close>, \<open>Ana\<close>, \<open>A pilot\<close>,
  \<open>no\<close>, \<open>A ship\<close>, \<open>Sci-Fi\<close>, \<open>Tense\<close> ends at step \<open>CONFIRM\<close> with
  the story parameters holding the trimmed first beat, the character Ana with
  the first colour of the palette, and the three texts.
\<close>

theorem walkthrough_reaches_confirm:
  assumes "trim b \<noteq> []" and "toLowerCase (trim b) \<noteq> ''start over''"
  shows "step (run (walkthrough b r) initialSession) = STEPS_get ''CONFIRM''
       \<and> data (run (walkthrough b r) initialSession) =
           \<lparr>beats = [trim b],
            characters = [\<lparr>name = ''Ana'', description = ''A pilot'',
                           color = characterColors ! 0\<rparr>],
            setting = ''A ship'', genre = ''Sci-Fi'', style = ''Tense''\<rparr>"
proof -
  define s1 where "s1 = submit b r initialSession"
  define s2 where "s2 = submit ''no'' r s1"
  define s3 where "s3 = submit ''Ana'' r s2"
  define s4 where "s4 = submit ''A pilot'' r s3"
  define s5 where "s5 = submit ''no'' r s4"
  define s6 where "s6 = submit ''A ship'' r s5"
  define s7 where "s7 = submit ''Sci-Fi'' r s6"
  define s8 where "s8 = submit ''Tense'' r s7"
  have run: "run (walkthrough b r) initialSession = s8"
    by (simp add: walkthrough_def s1_def s2_def s3_def s4_def s5_def s6_def s7_def s8_def)
  have i0: "step initialSession = STEPS_get ''BEAT''" "data initialSession = emptyData"
    by (simp_all add: initialSession_def)
  have i1: "step s1 = STEPS_get ''BEAT_CONFIRM''" "data s1 = emptyData\<lparr>beats := [trim b]\<rparr>"
    unfolding s1_def using submit_BEAT [OF i0(1) assms, of r]
    by (simp_all add: i0 emptyData_def)
  have i2: "step s2 = STEPS_get ''CHARACTER_NAME''" "data s2 = data s1"
    unfolding s2_def using submit_BEAT_CONFIRM [OF i1(1), of "''no''" r]
    by (simp_all add: walk_inputs)
  have i3: "step s3 = STEPS_get ''CHARACTER_DESCRIPTION''" "data s3 = data s1"
    "currentCharName s3 = ''Ana''"
    unfolding s3_def using submit_CHARACTER_NAME [OF i2(1), of "''Ana''" r]
    by (simp_all add: walk_inputs i2)
  have i4: "step s4 = STEPS_get ''CHARACTERS''"
    "data s4 = emptyData\<lparr>beats := [trim b],
       characters := [\<lparr>name = ''Ana'', description = ''A pilot'',
                       color = characterColors ! 0\<rparr>]\<rparr>"
    unfolding s4_def using submit_CHARACTER_DESCRIPTION [OF i3(1), of "''A pilot''" r]
    by (simp_all add: walk_inputs i3 i1 emptyData_def)
  have i5: "step s5 = STEPS_get ''SETTING''" "data s5 = data s4"
    unfolding s5_def using submit_CHARACTERS [OF i4(1), of "''no''" r]
    by (simp_all add: walk_inputs)
  have i6: "step s6 = STEPS_get ''GENRE''" "data s6 = (data s4)\<lparr>setting := ''A ship''\<rparr>"
    unfolding s6_def using submit_SETTING [OF i5(1), of "''A ship''" r]
    by (simp_all add: walk_inputs i5)
  have i7: "step s7 = STEPS_get ''STYLE''"
    "data s7 = (data s4)\<lparr>setting := ''A ship'', genre := ''Sci-Fi''\<rparr>"
    unfolding s7_def using submit_GENRE [OF i6(1), of "''Sci-Fi''" r]
    by (simp_all add: walk_inputs i6)
  have i8: "step s8 = STEPS_get ''CONFIRM''"
    "data s8 = (data s4)\<lparr>setting := ''A ship'', genre := ''Sci-Fi'', style := ''Tense''\<rparr>"
    unfolding s8_def using submit_STYLE [OF i7(1), of "''Tense''" r]
    by (simp_all add: walk_inputs i7)
  show ?thesis
    unfolding run by (simp add: i8 i4 emptyData_def)
qed

theorem walkthrough_reaches_confirm_witness:
  "trim ''A storm hits the ship'' \<noteq> []
   \<and> toLowerCase (trim ''A storm hits the ship'') \<noteq> ''start over''
   \<and> step (run (walkthrough ''A storm hits the ship'' NetworkError) initialSession) = Num 7
   \<and> data (run (walkthrough ''A storm hits the ship'' NetworkError) initialSession) =
       \<lparr>beats = [''A storm hits the ship''],
        characters = [\<lparr>name = ''Ana'', description = ''A pilot'', color = ''#f44336''\<rparr>],
        setting = ''A ship'', genre = ''Sci-Fi'', style = ''Tense''\<rparr>"
proof -
  have h1: "trim ''A storm hits the ship'' \<noteq> []"
    by code_simp
  have h2: "toLowerCase (trim ''A storm hits the ship'') \<noteq> ''start over''"
    by code_simp
  have t: "trim ''A storm hits the ship'' = ''A storm hits the ship''"
    by code_simp
  from walkthrough_reaches_confirm [OF h1 h2, of NetworkError] h1 h2 show ?thesis
    by (simp add: t STEPS_get_simps characterColors_def)
qed

section \<open>Declining at the confirmation step\<close>

text \<open>
  C5. At step \<open>CONFIRM\<close>, an input other than \<open>yes\<close> should emit the
  cancellation message and end the conversation, so that no later input but
  \<open>start over\<close> starts a generation; the message of the bot itself says
  "To try again, type 'start over'". The else branch emits the message but
  leaves the step at \<open>CONFIRM\<close>: after \<open>no\<close>, a later \<open>yes\<close> (which is not
  \<open>start over\<close>) issues the generation request and reaches \<open>EXTEND\<close> with
  the story of the response.
\<close>

theorem confirm_cancel_not_terminal:
  "step atConfirm = STEPS_get ''CONFIRM''
   \<and> toLowerCase (trim ''no'') \<noteq> ''yes''
   \<and> toLowerCase (trim ''yes'') \<noteq> ''start over''
   \<and> step (submit ''no'' NetworkError atConfirm) = STEPS_get ''CONFIRM''
   \<and> step (submit ''yes'' storyResponse (submit ''no'' NetworkError atConfirm)) =
       STEPS_get ''EXTEND''
   \<and> generatedStory (submit ''yes'' storyResponse (submit ''no'' NetworkError atConfirm)) =
       Str ''Once upon a time''"
  by code_simp

text \<open>
  What the else branch does in every session: the user message and the
  cancellation message are appended, the prompt and the input box are cleared,
  and nothing else changes, the step included; a \<open>yes\<close> submitted afterwards
  is handled at \<open>CONFIRM\<close> again.
\<close>

lemma confirm_cancel_stays:
  assumes "step s = STEPS_get ''CONFIRM''"
    and "trim txt \<noteq> []"
    and "toLowerCase (trim txt) \<noteq> ''yes''"
    and "toLowerCase (trim txt) \<noteq> ''start over''"
  shows "submit txt r s =
           s\<lparr>messages := messages s @
                [\<lparr>sender = User, text_m = trim txt\<rparr>,
                 \<lparr>sender = Bot,
                  text_m = ''Story generation cancelled. To try again, type 'start over'.''\<rparr>],
             currentPrompt := [], userInput := []\<rparr>
       \<and> step (submit txt r s) = STEPS_get ''CONFIRM''
       \<and> step (submit ''yes'' (Response status (JsonValue (Str prose))) (submit txt r s)) =
           STEPS_get ''EXTEND''
       \<and> generatedStory
           (submit ''yes'' (Response status (JsonValue (Str prose))) (submit txt r s)) =
           Str prose"
proof -
  have eq: "submit txt r s =
           s\<lparr>messages := messages s @
                [\<lparr>sender = User, text_m = trim txt\<rparr>,
                 \<lparr>sender = Bot,
                  text_m = ''Story generation cancelled. To try again, type 'start over'.''\<rparr>],
             currentPrompt := [], userInput := []\<rparr>"
    using assms by (rule submit_CONFIRM_other)
  have st: "step (submit txt r s) = STEPS_get ''CONFIRM''"
    by (simp add: eq assms(1))
  have yes: "toLowerCase (trim ''yes'') = ''yes''"
    by code_simp
  have later:
    "step (submit ''yes'' (Response status (JsonValue (Str prose))) s') = STEPS_get ''EXTEND''
     \<and> generatedStory (submit ''yes'' (Response status (JsonValue (Str prose))) s') = Str prose"
    if "step s' = STEPS_get ''CONFIRM''" for s'
    by (simp add: submit_CONFIRM_yes [OF that yes] generate_defs Let_def)
  from eq st later [OF st] show ?thesis
    by blast
qed

lemma confirm_cancel_stays_example:
  "step atConfirm = STEPS_get ''CONFIRM''
   \<and> trim ''no'' \<noteq> []
   \<and> toLowerCase (trim ''no'') \<noteq> ''yes''
   \<and> toLowerCase (trim ''no'') \<noteq> ''start over''
   \<and> step (submit ''no'' NetworkError atConfirm) = STEPS_get ''CONFIRM''
   \<and> step (submit ''yes'' (Response 200 (JsonValue (Str ''The end'')))
             (submit ''no'' NetworkError atConfirm)) = STEPS_get ''EXTEND''
   \<and> generatedStory (submit ''yes'' (Response 200 (JsonValue (Str ''The end'')))
             (submit ''no'' NetworkError atConfirm)) = Str ''The end''"
proof -
  have h1: "step atConfirm = STEPS_get ''CONFIRM''"
    by code_simp
  have h2: "trim ''no'' \<noteq> []"
    by code_simp
  have h3: "toLowerCase (trim ''no'') \<noteq> ''yes''"
    by code_simp
  have h4: "toLowerCase (trim ''no'') \<noteq> ''start over''"
    by code_simp
  from confirm_cancel_stays [OF h1 h2 h3 h4, of NetworkError 200 "''The end''"] h1 h2 h3 h4
  show ?thesis by blast
qed

section \<open>Beat operations\<close>

lemma beats_applyEditor_beatEvent:
  "beats (data (applyEditor (beatEvent op) s)) = beatsSpec [op] (beats (data s))"
  by (cases op) (simp_all add: handleAddBeat_def removeBeat_def filterIndexNot_eq)

lemma beatsSpec_append: "beatsSpec (ops @ ops') bs = beatsSpec ops' (beatsSpec ops bs)"
  by (induction ops bs rule: beatsSpec.induct) simp_all

lemma beats_runBeatOps:
  "beats (data (runBeatOps ops s)) = beatsSpec (map snd ops) (beats (data s))"
proof (induction ops arbitrary: s)
  case Nil
  then show ?case by simp
next
  case (Cons p ops)
  obtain st op where p: "p = (st, op)"
    by (cases p)
  have "beats (data (applyEditor (beatEvent op) (s\<lparr>step := st\<rparr>))) =
        beatsSpec [op] (beats (data s))"
    by (simp add: beats_applyEditor_beatEvent)
  with Cons.IH [of "applyEditor (beatEvent op) (s\<lparr>step := st\<rparr>)"] show ?case
    using beatsSpec_append [of "[op]" "map snd ops" "beats (data s)"]
    by (simp add: p)
qed

lemma subseq_remove_at: "subseq (take i bs @ drop (Suc i) bs) bs"
proof (induction bs arbitrary: i)
  case Nil
  then show ?case by simp
next
  case (Cons b bs)
  show ?case
  proof (cases i)
    case 0
    then show ?thesis by (simp add: list_emb_Cons)
  next
    case (Suc k)
    with Cons.IH [of k] show ?thesis by simp
  qed
qed

lemma subseq_beatsSpec: "subseq (beatsSpec ops bs) (bs @ addedBeats ops)"
proof (induction ops bs rule: beatsSpec.induct)
  case (1 bs)
  then show ?case by simp
next
  case (2 t ops bs)
  then show ?case by (cases "trim t = []") simp_all
next
  case (3 index ops bs)
  let ?bs' = "if index < length bs then take index bs @ drop (Suc index) bs else bs"
  have "subseq ?bs' bs"
    by (simp add: subseq_remove_at)
  then have "subseq (?bs' @ addedBeats ops) (bs @ addedBeats ops)"
    by (intro list_emb_append_mono) simp_all
  with "3.IH" have "subseq (beatsSpec ops ?bs') (bs @ addedBeats ops)"
    by (rule subseq_order.order_trans)
  then show ?case
    by simp
qed

lemma removeBeat_out_of_range:
  "length (beats (data s)) \<le> index \<Longrightarrow> removeBeat index s = s"
  by (simp add: removeBeat_def filterIndexNot_eq)

text \<open>
  C7. For every sequence of \<open>addBeat\<close> and \<open>removeBeat\<close> operations, each
  run at an arbitrary step and from an arbitrary session, the final list of
  beats is the one the reference computes: the beats in insertion order without
  those removed by an in-range \<open>removeBeat\<close>. It is a subsequence of the
  beats present at the start followed by the added beats; it does not depend
  on the steps at which the operations ran; and \<open>removeBeat\<close> with an index
  out of range leaves the whole session unchanged.
\<close>

theorem beat_ops_order:
  "beats (data (runBeatOps ops s)) = beatsSpec (map snd ops) (beats (data s))
   \<and> subseq (beats (data (runBeatOps ops s))) (beats (data s) @ addedBeats (map snd ops))
   \<and> beats (data (runBeatOps (map (apfst f) ops) (s\<lparr>step := st\<rparr>))) =
       beats (data (runBeatOps ops s))
   \<and> (length (beats (data s)) \<le> index \<longrightarrow> removeBeat index s = s)"
proof -
  have "map snd (map (apfst f) ops) = map snd ops"
    by (induction ops) auto
  then have
    "beats (data (runBeatOps (map (apfst f) ops) (s\<lparr>step := st\<rparr>))) =
       beats (data (runBeatOps ops s))"
    by (simp add: beats_runBeatOps)
  then show ?thesis
    by (simp add: beats_runBeatOps subseq_beatsSpec removeBeat_out_of_range)
qed

theorem beat_ops_order_witness:
  "length (beats (data initialSession)) \<le> 3
   \<and> removeBeat 3 initialSession = initialSession
   \<and> beats (data (runBeatOps beatOpsExample initialSession)) = [''Ana takes the helm'']
   \<and> beatsSpec (map snd beatOpsExample) (beats (data initialSession)) = [''Ana takes the helm'']
   \<and> addedBeats (map snd beatOpsExample) = [''The storm breaks'', ''Ana takes the helm'']"
proof -
  have h: "length (beats (data initialSession)) \<le> 3"
    by code_simp
  have v: "beatsSpec (map snd beatOpsExample) (beats (data initialSession)) =
           [''Ana takes the helm'']"
    by code_simp
  have a: "addedBeats (map snd beatOpsExample) = [''The storm breaks'', ''Ana takes the helm'']"
    by code_simp
  from beat_ops_order [of beatOpsExample initialSession id Undefined 3] h v a
  show ?thesis by simp
qed

section \<open>Colours of characters\<close>

lemma data_generateStory: "data (generateStory r s) = data s"
  by (simp add: generate_defs Let_def split: fetch_outcome.split response_body.split)

lemma characters_handleSend_flow:
  "characters (data (handleSend_flow r i s0 s)) =
     (if step s0 = STEPS_get ''CHARACTER_DESCRIPTION''
      then characters (data s) @
           [\<lparr>name = currentCharName s0, description = i,
             color = characterColors !
               (length (characters (data s)) mod length characterColors)\<rparr>]
      else characters (data s))"
  by (simp add: flow_defs data_generateStory)

lemma characters_submit:
  "characters (data (submit txt r s)) =
     (if trim txt = [] then characters (data s)
      else if toLowerCase (trim txt) = ''start over'' then []
      else if step s = STEPS_get ''CHARACTER_DESCRIPTION''
      then characters (data s) @
           [\<lparr>name = currentCharName s, description = trim txt,
             color = characterColors !
               (length (characters (data s)) mod length characterColors)\<rparr>]
      else characters (data s))"
proof (cases "trim txt = []")
  case True
  then show ?thesis
    by (simp add: submit_def handleSend_empty)
next
  case False
  show ?thesis
  proof (cases "toLowerCase (trim txt) = ''start over''")
    case True
    then show ?thesis
      using False by (simp add: submit_def handleSend_start_over startOver_def)
  next
    case no_reset: False
    with False show ?thesis
      by (simp add: submit_flow characters_handleSend_flow appendMessage_def)
  qed
qed

lemma characters_handleAddCharacter:
  "characters (data (handleAddCharacter s)) =
     (if trim (newCharacterName s) \<noteq> [] \<and> trim (newCharacterDesc s) \<noteq> []
      then characters (data s) @
           [\<lparr>name = trim (newCharacterName s), description = trim (newCharacterDesc s),
             color = characterColors !
               (length (characters (data s)) mod length characterColors)\<rparr>]
      else characters (data s))"
  by (simp add: handleAddCharacter_def Let_def)

lemma characters_removeCharacter:
  "characters (data (removeCharacter index s)) =
     take index (characters (data s)) @ drop (Suc index) (characters (data s))"
  by (simp add: removeCharacter_def filterIndexNot_eq)

text \<open>How an event can change the list of characters.\<close>

lemma characters_fire:
  "characters (data (fire e s)) = characters (data s)
   \<or> characters (data (fire e s)) = []
   \<or> (\<exists>c. characters (data (fire e s)) = characters (data s) @ [c]
          \<and> color c = characterColors !
                (length (characters (data s)) mod length characterColors))
   \<or> (\<exists>index. e = Editor (RemoveCharacter index)
          \<and> characters (data (fire e s)) =
              take index (characters (data s)) @ drop (Suc index) (characters (data s)))"
proof (cases e)
  case (Send t r)
  then show ?thesis
    by (simp add: characters_submit)
next
  case (Editor op)
  then show ?thesis
    by (cases op)
       (simp_all add: characters_handleAddCharacter characters_removeCharacter
          handleAddBeat_def removeBeat_def toggleEdit_def saveEdit_def
          cancelNewBeat_def cancelNewCharacter_def)
next
  case CycleLayoutMode
  then show ?thesis
    by (simp add: cycleLayoutMode_def)
qed

lemma paletteOrder_Nil: "paletteOrder []"
  by (simp add: paletteOrder_def)

lemma paletteOrder_append:
  "paletteOrder cs \<Longrightarrow> color c = characterColors ! (length cs mod length characterColors)
   \<Longrightarrow> paletteOrder (cs @ [c])"
  by (simp add: paletteOrder_def)

lemma paletteOrder_nth:
  "paletteOrder cs \<Longrightarrow> k < length cs
   \<Longrightarrow> color (cs ! k) = characterColors ! (k mod length characterColors)"
proof -
  assume a: "paletteOrder cs" and k: "k < length cs"
  have "color (cs ! k) = map color cs ! k"
    using k by simp
  also have "\<dots> = map (\<lambda>k. characterColors ! (k mod length characterColors)) [0..<length cs] ! k"
    using a by (simp add: paletteOrder_def)
  also have "\<dots> = characterColors ! (k mod length characterColors)"
    using k by simp
  finally show ?thesis .
qed

lemma paletteOrder_fire:
  assumes "paletteOrder (characters (data s))" and "noCharacterRemoval [e]"
  shows "paletteOrder (characters (data (fire e s)))"
proof -
  from assms(2) have "\<And>index. e \<noteq> Editor (RemoveCharacter index)"
    by auto
  with characters_fire [of e s] assms(1) show ?thesis
    by (auto simp: paletteOrder_Nil paletteOrder_append)
qed

lemma noCharacterRemoval_Cons:
  "noCharacterRemoval (e # es) \<longleftrightarrow> noCharacterRemoval [e] \<and> noCharacterRemoval es"
proof (cases e)
  case (Editor op)
  then show ?thesis
    by (cases op) simp_all
qed simp_all

lemma paletteOrder_run:
  "paletteOrder (characters (data s)) \<Longrightarrow> noCharacterRemoval es
   \<Longrightarrow> paletteOrder (characters (data (run es s)))"
proof (induction es arbitrary: s)
  case Nil
  then show ?case by simp
next
  case (Cons e es)
  from Cons.prems(2) have e: "noCharacterRemoval [e]" and es: "noCharacterRemoval es"
    using noCharacterRemoval_Cons [of e es] by simp_all
  from Cons.prems(1) e have "paletteOrder (characters (data (fire e s)))"
    by (rule paletteOrder_fire)
  then show ?case
    using es by (simp add: Cons.IH)
qed

text \<open>
  C3 as stated fails: after two adds and the removal of the first character,
  the third successful add (k = 2) gets the colour at index 1 of the palette,
  the colour the second character already has, and not the colour at index 2.
\<close>

theorem character_colors_after_removal:
  "map name (characters (data (run recastExample initialSession))) = [''Ben'', ''Cy'']
   \<and> color (characters (data (run recastExample initialSession)) ! 1) = ''#4caf50''
   \<and> characterColors ! (2 mod length characterColors) = ''#2196f3''
   \<and> color (characters (data (run recastExample initialSession)) ! 1) \<noteq>
       characterColors ! (2 mod length characterColors)"
  by code_simp


text \<open>
  C3, amended. A successful add, through the conversation or through the
  editor, gives the new character the palette colour at index n modulo the
  palette size, where n is the number of characters in the list at that
  moment. Hence in a session in which no character has been removed, the k-th
  added character has the palette colour at index k modulo the palette size.
  No event changes the colour of an existing character: an event leaves the
  list as it is, empties it (the reset), appends one character, or deletes one
  position.
\<close>

theorem character_colors:
  "(noCharacterRemoval es \<longrightarrow> k < length (characters (data (run es initialSession))) \<longrightarrow>
      color (characters (data (run es initialSession)) ! k) =
        characterColors ! (k mod length characterColors))
   \<and> (step s = STEPS_get ''CHARACTER_DESCRIPTION'' \<and> trim txt \<noteq> []
        \<and> toLowerCase (trim txt) \<noteq> ''start over'' \<longrightarrow>
      characters (data (submit txt r s)) =
        characters (data s) @
          [\<lparr>name = currentCharName s, description = trim txt,
            color = characterColors !
              (length (characters (data s)) mod length characterColors)\<rparr>])
   \<and> (trim nm \<noteq> [] \<and> trim d \<noteq> [] \<longrightarrow>
      characters (data (applyEditor (AddCharacter nm d) s)) =
        characters (data s) @
          [\<lparr>name = trim nm, description = trim d,
            color = characterColors !
              (length (characters (data s)) mod length characterColors)\<rparr>])
   \<and> characters (data (removeCharacter index s)) =
        take index (characters (data s)) @ drop (Suc index) (characters (data s))
   \<and> (characters (data (fire e s)) = characters (data s)
        \<or> characters (data (fire e s)) = []
        \<or> (\<exists>c. characters (data (fire e s)) = characters (data s) @ [c]
              \<and> color c = characterColors !
                    (length (characters (data s)) mod length characterColors))
        \<or> (\<exists>i. characters (data (fire e s)) =
                  take i (characters (data s)) @ drop (Suc i) (characters (data s))))"
proof -
  have "paletteOrder (characters (data initialSession))"
    by (simp add: initialSession_def emptyData_def paletteOrder_Nil)
  then have a: "noCharacterRemoval es \<Longrightarrow> paletteOrder (characters (data (run es initialSession)))"
    by (rule paletteOrder_run)
  have e: "characters (data (fire e s)) = characters (data s)
        \<or> characters (data (fire e s)) = []
        \<or> (\<exists>c. characters (data (fire e s)) = characters (data s) @ [c]
              \<and> color c = characterColors !
                    (length (characters (data s)) mod length characterColors))
        \<or> (\<exists>i. characters (data (fire e s)) =
                  take i (characters (data s)) @ drop (Suc i) (characters (data s)))"
    using characters_fire [of e s] by blast
  show ?thesis
    using a e
    by (simp add: paletteOrder_nth characters_submit characters_handleAddCharacter
        characters_removeCharacter)
qed

theorem character_colors_witness:
  "noCharacterRemoval castExample
   \<and> 1 < length (characters (data (run castExample initialSession)))
   \<and> color (characters (data (run castExample initialSession)) ! 1) =
       characterColors ! (1 mod length characterColors)
   \<and> step atDescription = STEPS_get ''CHARACTER_DESCRIPTION''
   \<and> trim ''A pilot'' \<noteq> []
   \<and> toLowerCase (trim ''A pilot'') \<noteq> ''start over''
   \<and> characters (data (submit ''A pilot'' NetworkError atDescription)) =
       characters (data atDescription) @
         [\<lparr>name = currentCharName atDescription, description = trim ''A pilot'',
           color = characterColors !
             (length (characters (data atDescription)) mod length characterColors)\<rparr>]
   \<and> trim ''Ben'' \<noteq> []
   \<and> trim ''A cook'' \<noteq> []
   \<and> characters (data (applyEditor (AddCharacter ''Ben'' ''A cook'') atDescription)) =
       characters (data atDescription) @
         [\<lparr>name = trim ''Ben'', description = trim ''A cook'',
           color = characterColors !
             (length (characters (data atDescription)) mod length characterColors)\<rparr>]"
proof -
  have h1: "noCharacterRemoval castExample"
    by code_simp
  have h2: "1 < length (characters (data (run castExample initialSession)))"
    by code_simp
  have h3: "step atDescription = STEPS_get ''CHARACTER_DESCRIPTION''"
    by code_simp
  have h4: "trim ''A pilot'' \<noteq> []"
    by code_simp
  have h5: "toLowerCase (trim ''A pilot'') \<noteq> ''start over''"
    by code_simp
  have h6: "trim ''Ben'' \<noteq> []"
    by code_simp
  have h7: "trim ''A cook'' \<noteq> []"
    by code_simp
  from character_colors [of castExample 1 atDescription "''A pilot''" NetworkError
      "''Ben''" "''A cook''" 0 "Editor (RemoveCharacter 0)"]
    h1 h2 h3 h4 h5 h6 h7
  show ?thesis by blast
qed

end
